theory Spec2Isabelle
  imports Complex_Main "HOL-Library.Sublist"
begin

section \<open>Python values and helpers used by the endpoint\<close>

text \<open>
  The service in \<^verbatim>\<open>examples/soc2-api-endpoint.py\<close> is a Flask application with three
  protected handlers. Its inputs are HTTP requests carrying JSON, its state is one table of a
  PostgreSQL database. The model below keeps the handlers' control flow: every \<^verbatim>\<open>raise\<close>
  is a value \<open>Inl e\<close>, every \<^verbatim>\<open>except\<close> clause is a branch, the table is a list of rows
  and every call made to the database driver is appended to a trace.

  A parsed JSON document, as \<^verbatim>\<open>request.get_json()\<close> returns it: \<^verbatim>\<open>None\<close> is \<open>JNull\<close>,
  a \<^verbatim>\<open>dict\<close> is an association list (keys distinct, as the parser leaves them). JSON
  numbers are integers here; floating-point payload numbers are outside the model.
\<close>

datatype json =
    JNull
  | JBool bool
  | JNum int
  | JStr string
  | JArr "json list"
  | JObj "(string \<times> json) list"

text \<open>The exceptions the handlers can meet. \<open>Psycopg2Error\<close> stands for \<^verbatim>\<open>psycopg2.Error\<close>
  and its subclasses, \<open>HTTPException\<close> for what \<^verbatim>\<open>get_json\<close> raises on a body it cannot
  parse. All of them are subclasses of \<^verbatim>\<open>Exception\<close>.\<close>

datatype exn =
    Psycopg2Error
  | HTTPException
  | AttributeError
  | TypeError
  | ValueError
  | ZeroDivisionError

definition bind_exn :: "exn + 'a \<Rightarrow> ('a \<Rightarrow> exn + 'b) \<Rightarrow> exn + 'b" where
  "bind_exn m f = (case m of Inl e \<Rightarrow> Inl e | Inr x \<Rightarrow> f x)"

text \<open>\<^verbatim>\<open>str.replace(old, new)\<close>: a single scan from the left that replaces each
  non-overlapping occurrence of \<open>old\<close>; with an empty \<open>old\<close> Python inserts \<open>new\<close> around
  every character.\<close>

function py_replace :: "string \<Rightarrow> string \<Rightarrow> string \<Rightarrow> string" where
  "py_replace old new s =
     (if old = [] then new @ concat (map (\<lambda>c. c # new) s)
      else if s = [] then []
      else if prefix old s then new @ py_replace old new (drop (length old) s)
      else hd s # py_replace old new (tl s))"
  by pat_completeness auto
termination
  by (relation "measure (\<lambda>(old, new, s). length s)") (auto simp: neq_Nil_conv)

declare py_replace.simps [simp del]

text \<open>Python truthiness of a parsed JSON value (\<^verbatim>\<open>if not data\<close>).\<close>

fun truthy :: "json \<Rightarrow> bool" where
  "truthy JNull = False"
| "truthy (JBool b) = b"
| "truthy (JNum n) = (n \<noteq> 0)"
| "truthy (JStr s) = (s \<noteq> [])"
| "truthy (JArr xs) = (xs \<noteq> [])"
| "truthy (JObj kvs) = (kvs \<noteq> [])"

text \<open>\<^verbatim>\<open>d.get(key, default)\<close>: only a \<^verbatim>\<open>dict\<close> has the method; on any other value the
  attribute lookup raises.\<close>

fun dict_get :: "json \<Rightarrow> string \<Rightarrow> json \<Rightarrow> exn + json" where
  "dict_get (JObj kvs) k d = Inr (case map_of kvs k of Some v \<Rightarrow> v | None \<Rightarrow> d)"
| "dict_get _ k d = Inl AttributeError"

text \<open>Python \<^verbatim>\<open>+\<close> on parsed JSON values: numbers add (\<^verbatim>\<open>bool\<close> is a subclass of
  \<^verbatim>\<open>int\<close>), strings and lists concatenate, everything else raises \<^verbatim>\<open>TypeError\<close>.\<close>

fun num_of :: "json \<Rightarrow> int option" where
  "num_of (JNum n) = Some n"
| "num_of (JBool b) = Some (if b then 1 else 0)"
| "num_of _ = None"

definition py_add :: "json \<Rightarrow> json \<Rightarrow> exn + json" where
  "py_add a b =
     (case (num_of a, num_of b) of
        (Some x, Some y) \<Rightarrow> Inr (JNum (x + y))
      | _ \<Rightarrow> (case (a, b) of
                (JStr s, JStr t) \<Rightarrow> Inr (JStr (s @ t))
              | (JArr s, JArr t) \<Rightarrow> Inr (JArr (s @ t))
              | _ \<Rightarrow> Inl TypeError))"

section \<open>Requests, environment, storage\<close>

text \<open>A point in time, in microseconds since the epoch: the order of the \<^verbatim>\<open>timestamp\<close>
  column and the arithmetic of \<^verbatim>\<open>NOW() - INTERVAL\<close>.\<close>

type_synonym datetime = int

text \<open>What a handler reads from the Flask request: the \<^verbatim>\<open>Authorization\<close> header (absent
  is \<open>None\<close>), the outcome of \<^verbatim>\<open>request.get_json()\<close> (Flask either raises or returns the
  parsed document, \<^verbatim>\<open>None\<close> being \<open>JNull\<close>), the query argument \<^verbatim>\<open>days\<close> after
  \<^verbatim>\<open>type=int\<close> (absent or not an integer is \<open>None\<close>) and the query argument
  \<^verbatim>\<open>application\<close>.\<close>

record request =
  authorization :: "string option"
  get_json :: "exn + json"
  args_days :: "int option"
  args_application :: "string option"

text \<open>What the handlers take from outside the repository: the environment variable
  \<^verbatim>\<open>API_SECRET_KEY\<close>, the clock and the two conversions of the \<^verbatim>\<open>datetime\<close> module
  (\<open>fromisoformat\<close> is \<open>None\<close> where Python raises \<^verbatim>\<open>ValueError\<close>), the database's
  \<^verbatim>\<open>NOW()\<close>, and which of the request's calls to the database driver raises
  \<^verbatim>\<open>psycopg2.Error\<close> (calls are numbered from 0 in the order the handler makes them).\<close>

record env =
  api_secret_key :: "string option"
  utcnow :: datetime
  isoformat :: "datetime \<Rightarrow> string"
  fromisoformat :: "string \<Rightarrow> datetime option"
  db_now :: datetime
  db_raises :: "nat \<Rightarrow> bool"

text \<open>One row of \<^verbatim>\<open>soc2_security_scans\<close>. Apart from the generated id and the parsed
  timestamp, a column holds the value the handler passed as query parameter.\<close>

record scan_record =
  row_id :: nat
  timestamp :: datetime
  repository :: json
  application :: json
  branch :: json
  commit_sha :: json
  scan_type :: json
  overall_status :: json
  total_issues :: json
  severity_threshold :: json
  secrets_scanning :: json
  sast_scanning :: json
  dependency_scanning :: json
  container_scanning :: json
  dast_scanning :: json
  secrets_findings :: json
  sast_findings :: json
  dependency_vulnerabilities :: json
  web_security_grade :: json
  workflow_run_id :: json
  workflow_run_number :: json
  sarif_uploaded :: json
  artifacts_available :: json
  scan_metadata_json :: json

datatype db_event = Connect | Cursor | Execute | Fetch | Commit | Rollback | CloseCursor | CloseConn

text \<open>The database: the committed rows, the id sequence, and the trace of every call a
  handler made to the driver (a call that raises is in the trace too).\<close>

record storage =
  rows :: "scan_record list"
  next_id :: nat
  trace :: "db_event list"

text \<open>The handler's local variables that the \<^verbatim>\<open>except\<close> and \<^verbatim>\<open>finally\<close> clauses test
  with \<^verbatim>\<open>'conn' in locals()\<close>, and the rows inserted in the open transaction.\<close>

record locals =
  conn_bound :: bool
  cur_bound :: bool
  pending :: "scan_record list"

definition no_locals :: locals where
  "no_locals = \<lparr>conn_bound = False, cur_bound = False, pending = []\<rparr>"

definition called :: "db_event \<Rightarrow> storage \<Rightarrow> storage" where
  "called ev st = st\<lparr>trace := trace st @ [ev]\<rparr>"

text \<open>The \<^verbatim>\<open>finally\<close> clause of every handler: close the cursor, then the connection,
  each only when its variable is bound. Closing discards an open transaction.\<close>

definition finally_close :: "locals \<Rightarrow> storage \<Rightarrow> storage" where
  "finally_close l st =
     (let st1 = (if cur_bound l then called CloseCursor st else st)
      in if conn_bound l then called CloseConn st1 else st1)"

section \<open>Responses\<close>

text \<open>The report document. The two aggregates over \<^verbatim>\<open>total_issues\<close> (\<^verbatim>\<open>AVG\<close>,
  \<^verbatim>\<open>MAX\<close>) are computed by the database on its own column type and are left out. A row of
  the breakdown is (application, scans, compliant); a row of the recent list is (application,
  repository, timestamp, total\_issues, workflow\_run\_id, overall\_status).\<close>

record report =
  report_generated :: string
  period_days :: int
  filter_application :: "string option"
  total_scans :: nat
  compliant_scans :: nat
  non_compliant_scans :: nat
  compliance_percentage :: rat
  applications :: "(json \<times> nat \<times> nat) list"
  recent_non_compliant_scans :: "(json \<times> json \<times> datetime \<times> json \<times> json \<times> json) list"

datatype body = Json json | Report report

record response =
  status :: nat
  body :: body

definition error_response :: "nat \<Rightarrow> string \<Rightarrow> response" where
  "error_response code msg = \<lparr>status = code, body = Json (JObj [(''error'', JStr msg)])\<rparr>"

section \<open>Credential check\<close>

text \<open>\<^verbatim>\<open>validate_api_key\<close>: the header, with every \<^verbatim>\<open>'Bearer '\<close> replaced by the empty
  string, must be non-empty and equal to the environment's secret (\<^verbatim>\<open>os.getenv\<close> gives
  \<^verbatim>\<open>None\<close> when the variable is unset, which no string equals).\<close>

definition validate_api_key :: "env \<Rightarrow> request \<Rightarrow> bool" where
  "validate_api_key e req =
     (let api_key = py_replace ''Bearer '' '''' (case authorization req of None \<Rightarrow> '''' | Some h \<Rightarrow> h);
          expected_key = api_secret_key e
      in if api_key = [] \<or> Some api_key \<noteq> expected_key then False else True)"

text \<open>A header cut at its occurrences of \<^verbatim>\<open>'Bearer '\<close>: \<open>join_bearer [p0, p1, ..., pn]\<close> is
  \<open>p0\<close>, \<^verbatim>\<open>'Bearer '\<close>, \<open>p1\<close>, ..., \<^verbatim>\<open>'Bearer '\<close>, \<open>pn\<close>. The usual header
  \<^verbatim>\<open>Bearer <token>\<close> is \<open>join_bearer [[], token]\<close>, a bare token is \<open>join_bearer [token]\<close>.\<close>

fun join_bearer :: "string list \<Rightarrow> string" where
  "join_bearer [] = []"
| "join_bearer [p] = p"
| "join_bearer (p # q # ps) = p @ ''Bearer '' @ join_bearer (q # ps)"

section \<open>Scan ingestion\<close>

text \<open>The four sections of the payload, each \<^verbatim>\<open>data.get(name, {})\<close>.\<close>

definition extract_sections :: "json \<Rightarrow> exn + (json \<times> json \<times> json \<times> json)" where
  "extract_sections data =
     bind_exn (dict_get data ''scan_metadata'' (JObj [])) (\<lambda>scan_metadata.
     bind_exn (dict_get data ''compliance_status'' (JObj [])) (\<lambda>compliance_status.
     bind_exn (dict_get data ''scan_results'' (JObj [])) (\<lambda>scan_results.
     bind_exn (dict_get data ''evidence_artifacts'' (JObj [])) (\<lambda>evidence_artifacts.
     Inr (scan_metadata, compliance_status, scan_results, evidence_artifacts)))))"

text \<open>\<^verbatim>\<open>datetime.fromisoformat(scan_metadata.get('timestamp', datetime.utcnow().isoformat())
  .replace('Z', '+00:00'))\<close>: the default covers a missing key only; a value that is not
  a string has no \<^verbatim>\<open>replace\<close>, and a string that does not parse raises
  \<^verbatim>\<open>ValueError\<close>.\<close>

definition scan_time :: "env \<Rightarrow> json \<Rightarrow> exn + datetime" where
  "scan_time e scan_metadata =
     bind_exn (dict_get scan_metadata ''timestamp'' (JStr (isoformat e (utcnow e)))) (\<lambda>v.
       case v of
         JStr s \<Rightarrow> (case fromisoformat e (py_replace ''Z'' ''+00:00'' s) of
                      None \<Rightarrow> Inl ValueError
                    | Some t \<Rightarrow> Inr t)
       | _ \<Rightarrow> Inl AttributeError)"

text \<open>\<^verbatim>\<open>d.get(k1, {}).get(k2, default)\<close>.\<close>

definition get2 :: "json \<Rightarrow> string \<Rightarrow> string \<Rightarrow> json \<Rightarrow> exn + json" where
  "get2 d k1 k2 dflt = bind_exn (dict_get d k1 (JObj [])) (\<lambda>s. dict_get s k2 dflt)"

text \<open>The \<^verbatim>\<open>sast_findings\<close> parameter: semgrep + eslint + bandit, each read with
  default 0, added from the left.\<close>

definition sast_sum :: "json \<Rightarrow> exn + json" where
  "sast_sum scan_results =
     bind_exn (get2 scan_results ''sast'' ''semgrep_findings'' (JNum 0)) (\<lambda>a.
     bind_exn (get2 scan_results ''sast'' ''eslint_findings'' (JNum 0)) (\<lambda>b.
     bind_exn (py_add a b) (\<lambda>ab.
     bind_exn (get2 scan_results ''sast'' ''bandit_findings'' (JNum 0)) (\<lambda>c.
     py_add ab c))))"

text \<open>The parameters of the \<^verbatim>\<open>INSERT\<close> after the timestamp, evaluated in the order of
  the tuple; the result still waits for the timestamp. The id is assigned by the database
  (\<^verbatim>\<open>RETURNING id\<close>) and is 0 until then.\<close>

definition row_values :: "json \<Rightarrow> json \<times> json \<times> json \<times> json \<Rightarrow> exn + (datetime \<Rightarrow> scan_record)" where
  "row_values data secs =
     (case secs of (scan_metadata, compliance_status, scan_results, evidence_artifacts) \<Rightarrow>
     bind_exn (dict_get scan_metadata ''repository'' (JStr [])) (\<lambda>v_repository.
     bind_exn (dict_get scan_metadata ''application'' (JStr [])) (\<lambda>v_application.
     bind_exn (dict_get scan_metadata ''branch'' (JStr [])) (\<lambda>v_branch.
     bind_exn (dict_get scan_metadata ''commit_sha'' (JStr [])) (\<lambda>v_commit_sha.
     bind_exn (dict_get scan_metadata ''scan_type'' (JStr [])) (\<lambda>v_scan_type.
     bind_exn (dict_get compliance_status ''overall_status'' (JStr ''UNKNOWN'')) (\<lambda>v_overall_status.
     bind_exn (dict_get compliance_status ''total_issues'' (JNum 0)) (\<lambda>v_total_issues.
     bind_exn (dict_get compliance_status ''severity_threshold'' (JStr [])) (\<lambda>v_severity_threshold.
     bind_exn (get2 compliance_status ''scan_coverage'' ''secrets_scanning'' (JBool False)) (\<lambda>v_secrets_scanning.
     bind_exn (get2 compliance_status ''scan_coverage'' ''sast_scanning'' (JBool False)) (\<lambda>v_sast_scanning.
     bind_exn (get2 compliance_status ''scan_coverage'' ''dependency_scanning'' (JBool False)) (\<lambda>v_dependency_scanning.
     bind_exn (get2 compliance_status ''scan_coverage'' ''container_scanning'' (JBool False)) (\<lambda>v_container_scanning.
     bind_exn (get2 compliance_status ''scan_coverage'' ''dast_scanning'' (JBool False)) (\<lambda>v_dast_scanning.
     bind_exn (get2 scan_results ''secrets'' ''findings'' (JNum 0)) (\<lambda>v_secrets_findings.
     bind_exn (sast_sum scan_results) (\<lambda>v_sast_findings.
     bind_exn (get2 scan_results ''dependencies'' ''vulnerabilities'' (JNum 0)) (\<lambda>v_dependency_vulnerabilities.
     bind_exn (get2 scan_results ''web_security'' ''security_headers_grade'' (JStr [])) (\<lambda>v_web_security_grade.
     bind_exn (dict_get scan_metadata ''workflow_run_id'' JNull) (\<lambda>v_workflow_run_id.
     bind_exn (dict_get scan_metadata ''workflow_run_number'' JNull) (\<lambda>v_workflow_run_number.
     bind_exn (dict_get evidence_artifacts ''sarif_uploaded'' (JBool False)) (\<lambda>v_sarif_uploaded.
     bind_exn (dict_get evidence_artifacts ''artifacts_available'' (JBool True)) (\<lambda>v_artifacts_available.
     Inr (\<lambda>t. \<lparr>row_id = 0, timestamp = t,
       repository = v_repository, application = v_application, branch = v_branch,
       commit_sha = v_commit_sha, scan_type = v_scan_type,
       overall_status = v_overall_status, total_issues = v_total_issues,
       severity_threshold = v_severity_threshold,
       secrets_scanning = v_secrets_scanning, sast_scanning = v_sast_scanning,
       dependency_scanning = v_dependency_scanning,
       container_scanning = v_container_scanning, dast_scanning = v_dast_scanning,
       secrets_findings = v_secrets_findings, sast_findings = v_sast_findings,
       dependency_vulnerabilities = v_dependency_vulnerabilities,
       web_security_grade = v_web_security_grade,
       workflow_run_id = v_workflow_run_id, workflow_run_number = v_workflow_run_number,
       sarif_uploaded = v_sarif_uploaded, artifacts_available = v_artifacts_available,
       scan_metadata_json = data\<rparr>)))))))))))))))))))))))"

text \<open>Line 114 runs before the parameter tuple of \<^verbatim>\<open>cur.execute\<close> is built.\<close>

definition insert_params :: "env \<Rightarrow> json \<Rightarrow> json \<times> json \<times> json \<times> json \<Rightarrow> exn + scan_record" where
  "insert_params e data secs =
     bind_exn (scan_time e (fst secs)) (\<lambda>t.
     bind_exn (row_values data secs) (\<lambda>mk. Inr (mk t)))"

definition created_response :: "nat \<Rightarrow> json \<Rightarrow> response" where
  "created_response scan_id cs =
     \<lparr>status = 201,
      body = Json (JObj [(''status'', JStr ''success''),
                         (''scan_id'', JNum (int scan_id)),
                         (''message'', JStr ''Security scan data received and stored''),
                         (''compliance_status'', cs)])\<rparr>"

text \<open>The body of the \<^verbatim>\<open>try\<close> block of \<^verbatim>\<open>receive_security_scan\<close>: its outcome (an
  exception or the response it returns), the database afterwards and the local variables
  bound when it stopped. The driver is called five times: connect (0), cursor (1), execute
  (2), fetchone (3), commit (4). The inserted row becomes part of the table at commit.\<close>

definition scan_body :: "env \<Rightarrow> request \<Rightarrow> storage \<Rightarrow> (exn + response) \<times> storage \<times> locals" where
  "scan_body e req st =
     (case get_json req of
        Inl ex \<Rightarrow> (Inl ex, st, no_locals)
      | Inr data \<Rightarrow>
          if \<not> truthy data then (Inr (error_response 400 ''No JSON data provided''), st, no_locals)
          else (case extract_sections data of
            Inl ex \<Rightarrow> (Inl ex, st, no_locals)
          | Inr secs \<Rightarrow>
              let st1 = called Connect st in
              if db_raises e 0 then (Inl Psycopg2Error, st1, no_locals)
              else
              let l1 = no_locals\<lparr>conn_bound := True\<rparr>; st2 = called Cursor st1 in
              if db_raises e 1 then (Inl Psycopg2Error, st2, l1)
              else
              let l2 = l1\<lparr>cur_bound := True\<rparr> in
              (case insert_params e data secs of
                 Inl ex \<Rightarrow> (Inl ex, st2, l2)
               | Inr row \<Rightarrow>
                   let st3 = called Execute st2 in
                   if db_raises e 2 then (Inl Psycopg2Error, st3, l2)
                   else
                   let new = row\<lparr>row_id := next_id st3\<rparr>;
                       st4 = st3\<lparr>next_id := Suc (next_id st3)\<rparr>;
                       l3 = l2\<lparr>pending := pending l2 @ [new]\<rparr>;
                       st5 = called Fetch st4 in
                   if db_raises e 3 then (Inl Psycopg2Error, st5, l3)
                   else
                   let scan_id = row_id new; st6 = called Commit st5 in
                   if db_raises e 4 then (Inl Psycopg2Error, st6, l3)
                   else
                   let st7 = st6\<lparr>rows := rows st6 @ pending l3\<rparr>; l4 = l3\<lparr>pending := []\<rparr> in
                   (case dict_get (fst (snd secs)) ''overall_status'' (JStr ''UNKNOWN'') of
                      Inl ex \<Rightarrow> (Inl ex, st7, l4)
                    | Inr cs \<Rightarrow> (Inr (created_response scan_id cs), st7, l4)))))"

text \<open>\<^verbatim>\<open>receive_security_scan\<close>: the credential check, then the \<^verbatim>\<open>try\<close> block with its
  two \<^verbatim>\<open>except\<close> clauses (\<^verbatim>\<open>psycopg2.Error\<close> first, then \<^verbatim>\<open>Exception\<close>) and the
  \<^verbatim>\<open>finally\<close> clause.\<close>

definition receive_security_scan :: "env \<Rightarrow> request \<Rightarrow> storage \<Rightarrow> response \<times> storage" where
  "receive_security_scan e req st =
     (if \<not> validate_api_key e req then (error_response 401 ''Unauthorized'', st)
      else (case scan_body e req st of (out, st1, l) \<Rightarrow>
        (case out of
           Inr r \<Rightarrow> (r, finally_close l st1)
         | Inl ex \<Rightarrow>
             if ex = Psycopg2Error
             then (error_response 500 ''Database error occurred'',
                   finally_close l (if conn_bound l then called Rollback st1 else st1))
             else (error_response 500 ''Internal server error'', finally_close l st1))))"




section \<open>Read-only handlers\<close>

text \<open>The calls a read-only handler makes to the driver, in order, numbered from \<open>n\<close>: the
  first call that raises stops the sequence and its number is returned.\<close>

fun run_calls :: "env \<Rightarrow> nat \<Rightarrow> db_event list \<Rightarrow> storage \<Rightarrow> nat option \<times> storage" where
  "run_calls e n [] st = (None, st)"
| "run_calls e n (ev # evs) st =
     (if db_raises e n then (Some n, called ev st) else run_calls e (Suc n) evs (called ev st))"

text \<open>What is bound when call \<open>n\<close> raised: \<^verbatim>\<open>conn\<close> after call 0 (connect), \<^verbatim>\<open>cur\<close> after
  call 1 (cursor).\<close>

definition locals_after :: "nat \<Rightarrow> locals" where
  "locals_after n = \<lparr>conn_bound = (0 < n), cur_bound = (1 < n), pending = []\<rparr>"

subsection \<open>Compliance report\<close>

text \<open>The \<^verbatim>\<open>WHERE\<close> clause shared by the three queries: the timestamp within the last
  \<open>days\<close> days of the database's clock, and the application filter when the query argument
  is a non-empty string (\<^verbatim>\<open>if application:\<close>).\<close>

definition base_where :: "env \<Rightarrow> int \<Rightarrow> string option \<Rightarrow> scan_record \<Rightarrow> bool" where
  "base_where e days app r =
     (db_now e - days * 86400000000 \<le> timestamp r \<and>
      (case app of None \<Rightarrow> True | Some a \<Rightarrow> if a = [] then True else application r = JStr a))"

text \<open>\<^verbatim>\<open>stats_query\<close>: (total\_scans, compliant\_scans, non\_compliant\_scans).\<close>

definition stats_query :: "env \<Rightarrow> int \<Rightarrow> string option \<Rightarrow> scan_record list \<Rightarrow> nat \<times> nat \<times> nat" where
  "stats_query e days app rs =
     (let xs = filter (base_where e days app) rs
      in (length xs,
          length (filter (\<lambda>r. overall_status r = JStr ''COMPLIANT'') xs),
          length (filter (\<lambda>r. overall_status r = JStr ''NON_COMPLIANT'') xs)))"

text \<open>\<^verbatim>\<open>app_query\<close>: \<^verbatim>\<open>GROUP BY application ORDER BY scans DESC\<close>.\<close>

definition app_query :: "env \<Rightarrow> int \<Rightarrow> string option \<Rightarrow> scan_record list \<Rightarrow> (json \<times> nat \<times> nat) list" where
  "app_query e days app rs =
     (let xs = filter (base_where e days app) rs;
          groups = map (\<lambda>a. (a,
                              length (filter (\<lambda>r. application r = a) xs),
                              length (filter (\<lambda>r. application r = a \<and> overall_status r = JStr ''COMPLIANT'') xs)))
                       (remdups (map application xs))
      in rev (sort_key (\<lambda>g. fst (snd g)) groups))"

text \<open>\<^verbatim>\<open>recent_issues_query\<close>: the six selected columns of the window's
  \<^verbatim>\<open>NON_COMPLIANT\<close> rows, \<^verbatim>\<open>ORDER BY timestamp DESC LIMIT 10\<close>.\<close>

definition recent_issues_query ::
  "env \<Rightarrow> int \<Rightarrow> string option \<Rightarrow> scan_record list \<Rightarrow> (json \<times> json \<times> datetime \<times> json \<times> json \<times> json) list" where
  "recent_issues_query e days app rs =
     map (\<lambda>r. (application r, repository r, timestamp r, total_issues r, workflow_run_id r, overall_status r))
       (take 10 (rev (sort_key timestamp
          (filter (\<lambda>r. base_where e days app r \<and> overall_status r = JStr ''NON_COMPLIANT'') rs))))"

text \<open>Python's \<^verbatim>\<open>/\<close> on two integers. The quotient is a float in Python; the model keeps
  it exact (a rational), so the rounding error of the double is outside the model.\<close>

definition py_truediv :: "int \<Rightarrow> int \<Rightarrow> exn + rat" where
  "py_truediv a b = (if b = 0 then Inl ZeroDivisionError else Inr (of_int a / of_int b))"

text \<open>Lines 255 to 257: 0 unless \<^verbatim>\<open>stats_result\<close> is there and \<^verbatim>\<open>total_scans > 0\<close>.\<close>

definition calc_compliance_percentage :: "(nat \<times> nat \<times> nat) option \<Rightarrow> exn + rat" where
  "calc_compliance_percentage stats_result =
     (case stats_result of
        None \<Rightarrow> Inr 0
      | Some (n_total, n_compliant, n_non_compliant) \<Rightarrow>
          if 0 < n_total
          then bind_exn (py_truediv (int n_compliant) (int n_total)) (\<lambda>q. Inr (q * 100))
          else Inr 0)"

text \<open>\<^verbatim>\<open>round(x, 2)\<close>: to the nearest multiple of 1/100, a tie going to the even one.\<close>

definition round_half_even :: "rat \<Rightarrow> int" where
  "round_half_even x =
     (let f = \<lfloor>x\<rfloor>; d = x - of_int f
      in if d < 1 / 2 then f else if 1 / 2 < d then f + 1 else if even f then f else f + 1)"

definition py_round2 :: "rat \<Rightarrow> rat" where
  "py_round2 x = of_int (round_half_even (x * 100)) / 100"

text \<open>\<^verbatim>\<open>get_compliance_report\<close>. The driver is called eight times: connect, cursor, and
  execute and fetch for each of the three queries; any exception in the \<^verbatim>\<open>try\<close> block is
  the same 500.\<close>

definition get_compliance_report :: "env \<Rightarrow> request \<Rightarrow> storage \<Rightarrow> response \<times> storage" where
  "get_compliance_report e req st =
     (if \<not> validate_api_key e req then (error_response 401 ''Unauthorized'', st)
      else
        let days = (case args_days req of None \<Rightarrow> 30 | Some d \<Rightarrow> d);
            app = args_application req
        in (case run_calls e 0 [Connect, Cursor, Execute, Fetch, Execute, Fetch, Execute, Fetch] st of
              (Some n, st1) \<Rightarrow>
                (error_response 500 ''Failed to generate report'', finally_close (locals_after n) st1)
            | (None, st1) \<Rightarrow>
                let stats_result = Some (stats_query e days app (rows st1));
                    apps = app_query e days app (rows st1);
                    recent_issues = recent_issues_query e days app (rows st1)
                in (case calc_compliance_percentage stats_result of
                      Inl ex \<Rightarrow>
                        (error_response 500 ''Failed to generate report'', finally_close (locals_after 2) st1)
                    | Inr pct \<Rightarrow>
                        (\<lparr>status = 200,
                          body = Report
                            \<lparr>report_generated = isoformat e (utcnow e),
                             period_days = days,
                             filter_application = app,
                             total_scans = (case stats_result of None \<Rightarrow> 0 | Some s \<Rightarrow> fst s),
                             compliant_scans = (case stats_result of None \<Rightarrow> 0 | Some s \<Rightarrow> fst (snd s)),
                             non_compliant_scans = (case stats_result of None \<Rightarrow> 0 | Some s \<Rightarrow> snd (snd s)),
                             compliance_percentage = py_round2 pct,
                             applications = apps,
                             recent_non_compliant_scans = recent_issues\<rparr>\<rparr>,
                         finally_close (locals_after 2) st1))))"

subsection \<open>Status of one application\<close>

text \<open>\<^verbatim>\<open>WHERE application = %s ORDER BY timestamp DESC LIMIT 1\<close>, then \<^verbatim>\<open>fetchone\<close>.\<close>

definition latest_scan_query :: "string \<Rightarrow> scan_record list \<Rightarrow> scan_record option" where
  "latest_scan_query app rs =
     (case take 1 (rev (sort_key timestamp (filter (\<lambda>r. application r = JStr app) rs))) of
        [] \<Rightarrow> None
      | r # _ \<Rightarrow> Some r)"

definition status_document :: "env \<Rightarrow> string \<Rightarrow> scan_record \<Rightarrow> json" where
  "status_document e app latest_scan =
     JObj [(''application'', JStr app),
           (''current_status'', overall_status latest_scan),
           (''last_scan'', JStr (isoformat e (timestamp latest_scan))),
           (''total_issues'', total_issues latest_scan),
           (''scan_coverage'', JObj
              [(''secrets_scanning'', secrets_scanning latest_scan),
               (''sast_scanning'', sast_scanning latest_scan),
               (''dependency_scanning'', dependency_scanning latest_scan),
               (''container_scanning'', container_scanning latest_scan),
               (''dast_scanning'', dast_scanning latest_scan)])]"

text \<open>\<^verbatim>\<open>get_application_status\<close>: connect, cursor, execute, fetchone.\<close>

definition get_application_status :: "env \<Rightarrow> request \<Rightarrow> string \<Rightarrow> storage \<Rightarrow> response \<times> storage" where
  "get_application_status e req app st =
     (if \<not> validate_api_key e req then (error_response 401 ''Unauthorized'', st)
      else (case run_calls e 0 [Connect, Cursor, Execute, Fetch] st of
              (Some n, st1) \<Rightarrow>
                (error_response 500 ''Failed to get status'', finally_close (locals_after n) st1)
            | (None, st1) \<Rightarrow>
                (case latest_scan_query app (rows st1) of
                   None \<Rightarrow> (error_response 404 ''Application not found'', finally_close (locals_after 2) st1)
                 | Some latest_scan \<Rightarrow>
                     (\<lparr>status = 200, body = Json (status_document e app latest_scan)\<rparr>,
                      finally_close (locals_after 2) st1))))"

section \<open>A clock for concrete runs\<close>

text \<open>The handlers take \<^verbatim>\<open>datetime.isoformat\<close> and \<^verbatim>\<open>datetime.fromisoformat\<close> as
  parameters. To run them on concrete requests, the two functions below implement the
  fixed-width profile that \<^verbatim>\<open>isoformat\<close> emits for a UTC time,
  \<^verbatim>\<open>YYYY-MM-DDTHH:MM:SS[.ffffff][+00:00]\<close>, over the proleptic Gregorian calendar. The
  parser refuses every other string, in particular every string that is no timestamp
  at all.\<close>

definition digit_val :: "char \<Rightarrow> int option" where
  "digit_val c = (let n = (of_char c :: nat) in if 48 \<le> n \<and> n \<le> 57 then Some (int n - 48) else None)"

definition digits_val :: "string \<Rightarrow> int option" where
  "digits_val s =
     foldl (\<lambda>acc c. case (acc, digit_val c) of (Some a, Some d) \<Rightarrow> Some (a * 10 + d) | _ \<Rightarrow> None)
       (Some 0) s"

fun show_digits :: "nat \<Rightarrow> int \<Rightarrow> string" where
  "show_digits 0 v = []"
| "show_digits (Suc w) v = show_digits w (v div 10) @ [char_of (48 + v mod 10)]"

definition days_from_civil :: "int \<Rightarrow> int \<Rightarrow> int \<Rightarrow> int" where
  "days_from_civil y m d =
     (let y1 = (if m \<le> 2 then y - 1 else y);
          era = y1 div 400;
          yoe = y1 - era * 400;
          doy = (153 * (if 2 < m then m - 3 else m + 9) + 2) div 5 + d - 1;
          doe = yoe * 365 + yoe div 4 - yoe div 100 + doy
      in era * 146097 + doe - 719468)"

definition civil_from_days :: "int \<Rightarrow> int \<times> int \<times> int" where
  "civil_from_days z =
     (let z1 = z + 719468;
          era = z1 div 146097;
          doe = z1 - era * 146097;
          yoe = (doe - doe div 1460 + doe div 36524 - doe div 146096) div 365;
          doy = doe - (365 * yoe + yoe div 4 - yoe div 100);
          mp = (5 * doy + 2) div 153;
          d = doy - (153 * mp + 2) div 5 + 1;
          m = (if mp < 10 then mp + 3 else mp - 9);
          y = yoe + era * 400
      in (if m \<le> 2 then y + 1 else y, m, d))"

definition days_in_month :: "int \<Rightarrow> int \<Rightarrow> int" where
  "days_in_month y m =
     (if m = 2 then (if y mod 4 = 0 \<and> (y mod 100 \<noteq> 0 \<or> y mod 400 = 0) then 29 else 28)
      else if m = 4 \<or> m = 6 \<or> m = 9 \<or> m = 11 then 30 else 31)"

definition iso_format :: "datetime \<Rightarrow> string" where
  "iso_format t =
     (let secs = t div 1000000; us = t mod 1000000;
          days = secs div 86400; sod = secs mod 86400
      in case civil_from_days days of (y, m, d) \<Rightarrow>
           show_digits 4 y @ ''-'' @ show_digits 2 m @ ''-'' @ show_digits 2 d @ ''T'' @
           show_digits 2 (sod div 3600) @ '':'' @ show_digits 2 (sod mod 3600 div 60) @ '':'' @
           show_digits 2 (sod mod 60) @
           (if us = 0 then [] else ''.'' @ show_digits 6 us))"

definition iso_parse :: "string \<Rightarrow> datetime option" where
  "iso_parse s =
     (let body = take 19 s;
          rest1 = drop 19 s;
          frac = (if take 1 rest1 = ''.'' then take 6 (drop 1 rest1) else ''000000'');
          rest2 = (if take 1 rest1 = ''.'' then drop 7 rest1 else rest1)
      in if length body = 19 \<and> body ! 4 = CHR ''-'' \<and> body ! 7 = CHR ''-'' \<and> body ! 10 = CHR ''T''
            \<and> body ! 13 = CHR '':'' \<and> body ! 16 = CHR '':'' \<and> length frac = 6
            \<and> (rest2 = [] \<or> rest2 = ''+00:00'')
         then (case (digits_val (take 4 body), digits_val (take 2 (drop 5 body)),
                     digits_val (take 2 (drop 8 body)), digits_val (take 2 (drop 11 body)),
                     digits_val (take 2 (drop 14 body)), digits_val (take 2 (drop 17 body)),
                     digits_val frac) of
                 (Some y, Some m, Some d, Some hh, Some mm, Some ss, Some us) \<Rightarrow>
                   if 1 \<le> y \<and> 1 \<le> m \<and> m \<le> 12 \<and> 1 \<le> d \<and> d \<le> days_in_month y m
                      \<and> hh < 24 \<and> mm < 60 \<and> ss < 60
                   then Some ((((days_from_civil y m d * 24 + hh) * 60 + mm) * 60 + ss) * 1000000 + us)
                   else None
               | _ \<Rightarrow> None)
         else None)"

text \<open>An environment for concrete runs: the secret \<^verbatim>\<open>s3cret\<close>, both clocks at
  2024-01-15T10:30:00 UTC, and a database whose calls raise as \<open>faults\<close> says.\<close>

definition test_env :: "(nat \<Rightarrow> bool) \<Rightarrow> env" where
  "test_env faults =
     \<lparr>api_secret_key = Some ''s3cret'', utcnow = 1705314600000000,
      isoformat = iso_format, fromisoformat = iso_parse,
      db_now = 1705314600000000, db_raises = faults\<rparr>"

definition test_request :: "string \<Rightarrow> exn + json \<Rightarrow> request" where
  "test_request header payload =
     \<lparr>authorization = Some header, get_json = payload, args_days = None, args_application = None\<rparr>"


text \<open>Three payloads for concrete runs: one that names only its application, one whose
  timestamp is no timestamp, and the specification's example with a single sub-counter.\<close>

definition payload_minimal :: json where
  "payload_minimal = JObj [(''scan_metadata'', JObj [(''application'', JStr ''svc-a'')])]"



text \<open>A table for concrete runs of the read-only handlers: two scans of \<^verbatim>\<open>svc-a\<close> (three
  and two days before the clock of \<open>test_env\<close>), one of \<^verbatim>\<open>svc-b\<close> (one day before) and one
  of \<^verbatim>\<open>svc-c\<close> forty days before, outside the default window.\<close>

definition test_row :: "nat \<Rightarrow> datetime \<Rightarrow> string \<Rightarrow> string \<Rightarrow> int \<Rightarrow> scan_record" where
  "test_row i t app st n =
     \<lparr>row_id = i, timestamp = t, repository = JStr ''org/repo'', application = JStr app,
      branch = JStr ''main'', commit_sha = JStr [], scan_type = JStr [],
      overall_status = JStr st, total_issues = JNum n, severity_threshold = JStr [],
      secrets_scanning = JBool True, sast_scanning = JBool True, dependency_scanning = JBool False,
      container_scanning = JBool False, dast_scanning = JBool False,
      secrets_findings = JNum 0, sast_findings = JNum n, dependency_vulnerabilities = JNum 0,
      web_security_grade = JStr [], workflow_run_id = JNull, workflow_run_number = JNull,
      sarif_uploaded = JBool False, artifacts_available = JBool True, scan_metadata_json = JObj []\<rparr>"

definition test_storage :: storage where
  "test_storage =
     \<lparr>rows = [test_row 1 1705055400000000 ''svc-a'' ''COMPLIANT'' 0,
              test_row 2 1705141800000000 ''svc-a'' ''NON_COMPLIANT'' 5,
              test_row 3 1705228200000000 ''svc-b'' ''COMPLIANT'' 0,
              test_row 4 1701858600000000 ''svc-c'' ''NON_COMPLIANT'' 7],
      next_id = 5, trace = []\<rparr>"

section \<open>Properties of the helpers\<close>

lemma bind_exn_simps [simp]:
  "bind_exn (Inl ex) f = Inl ex"
  "bind_exn (Inr x) f = f x"
  by (simp_all add: bind_exn_def)

lemma py_replace_Nil: "old \<noteq> [] \<Longrightarrow> py_replace old new [] = []"
  by (simp add: py_replace.simps)

lemma py_replace_at_occurrence:
  "old \<noteq> [] \<Longrightarrow> py_replace old new (old @ s) = new @ py_replace old new s"
  by (subst py_replace.simps) simp

lemma py_replace_step:
  "old \<noteq> [] \<Longrightarrow> \<not> prefix old (c # s) \<Longrightarrow> py_replace old new (c # s) = c # py_replace old new s"
  by (subst py_replace.simps) simp

text \<open>A string without an occurrence of \<open>old\<close> is left as it is.\<close>

lemma py_replace_no_occurrence:
  "old \<noteq> [] \<Longrightarrow> \<not> sublist old s \<Longrightarrow> py_replace old new s = s"
proof (induction s)
  case Nil
  then show ?case by (simp add: py_replace_Nil)
next
  case (Cons c s)
  from Cons.prems have np: "\<not> prefix old (c # s)" and ns: "\<not> sublist old s"
    by (auto simp: sublist_Cons_right)
  show ?case using Cons.IH [OF Cons.prems(1) ns] py_replace_step [OF Cons.prems(1) np] by simp
qed

text \<open>When the first character of \<open>old\<close> does not occur again in \<open>old\<close>, no occurrence
  of \<open>old\<close> can start before and run into another one: the scan reaches an occurrence that
  follows an \<open>old\<close>-free stretch exactly at its first character.\<close>

lemma no_overlap:
  assumes "a \<noteq> []" and "\<not> prefix old a" and "old \<noteq> []" and "hd old \<notin> set (tl old)"
  shows "\<not> prefix old (a @ old @ t)"
proof
  assume "prefix old (a @ old @ t)"
  then have "prefix old a \<or> (\<exists>us. old = a @ us \<and> prefix us (old @ t))"
    by (simp only: prefix_append)
  with assms(2) obtain us where split: "old = a @ us" and pre: "prefix us (old @ t)"
    by blast
  from split assms(2) have ne: "us \<noteq> []" by auto
  from assms(1) obtain c a' where a: "a = c # a'" by (cases a) auto
  with split have "tl old = a' @ us" by simp
  then have "set us \<subseteq> set (tl old)" by simp
  with ne have "hd us \<in> set (tl old)" by (cases us) auto
  moreover from pre ne assms(3) have "hd us = hd old" by (cases us; cases old) auto
  ultimately show False using assms(4) by simp
qed

lemma py_replace_skip:
  assumes "old \<noteq> []" and "hd old \<notin> set (tl old)"
  shows "\<not> sublist old a \<Longrightarrow> py_replace old new (a @ old @ t) = a @ new @ py_replace old new t"
proof (induction a)
  case Nil
  show ?case using py_replace_at_occurrence [OF assms(1), of new t] by simp
next
  case (Cons c a)
  from Cons.prems have np: "\<not> prefix old (c # a)" and ns: "\<not> sublist old a"
    by (auto simp: sublist_Cons_right)
  from no_overlap [OF _ np assms, of t] have "\<not> prefix old (c # (a @ old @ t))"
    by simp
  then have "py_replace old new (c # (a @ old @ t)) = c # py_replace old new (a @ old @ t)"
    by (rule py_replace_step [OF assms(1)])
  with Cons.IH [OF ns] show ?case by simp
qed

lemma bearer_shape: "''Bearer '' \<noteq> [] \<and> hd ''Bearer '' \<notin> set (tl ''Bearer '')"
  by simp

lemma py_replace_bearer_skip:
  "\<not> sublist ''Bearer '' a \<Longrightarrow>
   py_replace ''Bearer '' [] (a @ ''Bearer '' @ t) = a @ py_replace ''Bearer '' [] t"
  using py_replace_skip [of "''Bearer ''" a "[]" t] bearer_shape by simp

lemma py_replace_join_bearer:
  "\<forall>p \<in> set ps. \<not> sublist ''Bearer '' p \<Longrightarrow> py_replace ''Bearer '' [] (join_bearer ps) = concat ps"
proof (induction ps rule: join_bearer.induct)
  case 1
  then show ?case by (simp add: py_replace_Nil)
next
  case (2 p)
  then show ?case by (simp add: py_replace_no_occurrence)
next
  case (3 p q ps)
  then have "py_replace ''Bearer '' [] (join_bearer (q # ps)) = concat (q # ps)"
    and "\<not> sublist ''Bearer '' p" by simp_all
  then show ?case using py_replace_bearer_skip [of p "join_bearer (q # ps)"] by simp
qed

lemma sublist_concat_member: "p \<in> set ps \<Longrightarrow> sublist p (concat ps)"
  by (induction ps) (auto intro: sublist_order.order.trans)

text \<open>Every header is a cut of this kind: its pieces are what stands between the
  occurrences of \<^verbatim>\<open>'Bearer '\<close> that the scan meets.\<close>

lemma join_bearer_Cons: "join_bearer ((c # p) # rest) = c # join_bearer (p # rest)"
  by (cases rest) simp_all

lemma prefix_join_bearer_first: "prefix p (join_bearer (p # rest))"
  by (cases rest) simp_all

lemma header_cut: "\<exists>ps. ps \<noteq> [] \<and> h = join_bearer ps \<and> (\<forall>p \<in> set ps. \<not> sublist ''Bearer '' p)"
proof (induction h rule: length_induct)
  case (1 h)
  show ?case
  proof (cases "prefix ''Bearer '' h")
    case True
    then obtain t where h: "h = ''Bearer '' @ t" by (auto simp only: prefix_def)
    then have "length t < length h" by simp
    with 1 obtain ps where ps: "ps \<noteq> []" "t = join_bearer ps" "\<forall>p \<in> set ps. \<not> sublist ''Bearer '' p"
      by blast
    from ps(1) obtain q qs where "ps = q # qs" by (cases ps) auto
    with ps h have "h = join_bearer ([] # ps)" by simp
    moreover have "\<forall>p \<in> set ([] # ps). \<not> sublist ''Bearer '' p" using ps(3) by simp
    ultimately show ?thesis by blast
  next
    case False
    show ?thesis
    proof (cases h)
      case Nil
      then have "h = join_bearer [[]]" by simp
      moreover have "\<not> sublist ''Bearer '' []" by simp
      ultimately show ?thesis by (intro exI [of _ "[[]]"]) simp
    next
      case (Cons c h')
      then have "length h' < length h" by simp
      with 1 obtain ps where ps: "ps \<noteq> []" "h' = join_bearer ps" "\<forall>p \<in> set ps. \<not> sublist ''Bearer '' p"
        by blast
      from ps(1) obtain p rest where pr: "ps = p # rest" by (cases ps) auto
      have h: "h = join_bearer ((c # p) # rest)"
        using Cons ps(2) pr by (simp only: join_bearer_Cons)
      have "prefix (c # p) h" unfolding h by (rule prefix_join_bearer_first)
      with False have "\<not> prefix ''Bearer '' (c # p)" using prefix_order.order_trans by blast
      with ps(3) pr have "\<not> sublist ''Bearer '' (c # p)" by (simp only: sublist_Cons_right) simp
      with ps(3) pr have "\<forall>q \<in> set ((c # p) # rest). \<not> sublist ''Bearer '' q" by simp
      with h show ?thesis by blast
    qed
  qed
qed

lemma validate_api_key_iff:
  "validate_api_key e req \<longleftrightarrow>
     (let k = py_replace ''Bearer '' [] (case authorization req of None \<Rightarrow> [] | Some h \<Rightarrow> h)
      in k \<noteq> [] \<and> api_secret_key e = Some k)"
  by (auto simp: validate_api_key_def Let_def)

section \<open>Credential check: the claims\<close>

text \<open>
  C1 (as amended). The caller presents a bearer token \<open>tok\<close> in the header
  \<^verbatim>\<open>Authorization: Bearer tok\<close>. A request without the header is denied. For every token
  that does not contain the substring \<^verbatim>\<open>'Bearer '\<close> and every configured secret, the
  request is allowed if and only if the token is non-empty and equal to the secret (an
  unset secret equals no token).
\<close>

theorem credential_check_exact_match:
  assumes "\<not> sublist ''Bearer '' tok"
  shows "\<not> validate_api_key e (req\<lparr>authorization := None\<rparr>) \<and>
         (validate_api_key e (req\<lparr>authorization := Some (''Bearer '' @ tok)\<rparr>)
            \<longleftrightarrow> tok \<noteq> [] \<and> api_secret_key e = Some tok)"
proof -
  have "py_replace ''Bearer '' [] (''Bearer '' @ tok) = tok"
    using py_replace_bearer_skip [of "[]" tok] py_replace_no_occurrence [OF _ assms, of "[]"]
    by simp
  moreover have "py_replace ''Bearer '' [] [] = []"
    by (simp add: py_replace_Nil)
  ultimately show ?thesis
    by (auto simp: validate_api_key_iff)
qed

theorem credential_check_exact_match_witness:
  "\<not> sublist ''Bearer '' ''s3cret'' \<and>
   \<not> validate_api_key (test_env (\<lambda>n. False)) ((test_request [] (Inr JNull))\<lparr>authorization := None\<rparr>) \<and>
   validate_api_key (test_env (\<lambda>n. False))
     ((test_request [] (Inr JNull))\<lparr>authorization := Some (''Bearer '' @ ''s3cret'')\<rparr>)"
proof -
  have h: "\<not> sublist ''Bearer '' ''s3cret''"
    by code_simp
  show ?thesis
    using h credential_check_exact_match [OF h, of "test_env (\<lambda>n. False)" "test_request [] (Inr JNull)"]
    by (simp add: test_env_def)
qed

text \<open>
  C1 as stated fails: with the secret \<^verbatim>\<open>s3cret\<close>, the header
  \<^verbatim>\<open>Authorization: Bearer s3Bearer cret\<close> carries the token \<^verbatim>\<open>s3Bearer cret\<close>, which
  differs from the secret, and the request is allowed.
\<close>

theorem credential_check_counterexample:
  "validate_api_key (test_env (\<lambda>n. False)) (test_request (''Bearer '' @ ''s3Bearer cret'') (Inr JNull)) \<and>
   api_secret_key (test_env (\<lambda>n. False)) \<noteq> Some ''s3Bearer cret''"
  by code_simp

text \<open>
  C2 (as amended). The check compares the header with every occurrence of
  \<^verbatim>\<open>'Bearer '\<close> deleted: a header whose pieces between the occurrences are \<open>ps\<close> (every
  header has such pieces, \<open>header_cut\<close>) is accepted if and only if the pieces, put
  together, are non-empty and equal to the secret. In
  particular, for every non-empty secret that does not contain \<^verbatim>\<open>'Bearer '\<close>, the bare
  secret is accepted as header, and so is every header that cuts the secret into pieces
  \<open>qs\<close> with \<^verbatim>\<open>'Bearer '\<close> in between.
\<close>

theorem credential_check_deletes_every_bearer:
  "((\<forall>p \<in> set ps. \<not> sublist ''Bearer '' p) \<longrightarrow>
      (validate_api_key e (req\<lparr>authorization := Some (join_bearer ps)\<rparr>)
         \<longleftrightarrow> concat ps \<noteq> [] \<and> api_secret_key e = Some (concat ps))) \<and>
   (api_secret_key e = Some secret \<and> secret \<noteq> [] \<and> \<not> sublist ''Bearer '' secret \<and> concat qs = secret \<longrightarrow>
      validate_api_key e (req\<lparr>authorization := Some secret\<rparr>) \<and>
      validate_api_key e (req\<lparr>authorization := Some (join_bearer qs)\<rparr>))"
proof (intro conjI impI)
  assume "\<forall>p \<in> set ps. \<not> sublist ''Bearer '' p"
  then show "validate_api_key e (req\<lparr>authorization := Some (join_bearer ps)\<rparr>)
         \<longleftrightarrow> concat ps \<noteq> [] \<and> api_secret_key e = Some (concat ps)"
    using py_replace_join_bearer [of ps] by (simp add: validate_api_key_iff)
next
  assume h: "api_secret_key e = Some secret \<and> secret \<noteq> [] \<and> \<not> sublist ''Bearer '' secret \<and> concat qs = secret"
  then show "validate_api_key e (req\<lparr>authorization := Some secret\<rparr>)"
    using py_replace_no_occurrence [of "''Bearer ''" secret "[]"] by (simp add: validate_api_key_iff)
  from h have "\<forall>p \<in> set qs. \<not> sublist ''Bearer '' p"
    using sublist_concat_member sublist_order.order.trans by blast
  with h show "validate_api_key e (req\<lparr>authorization := Some (join_bearer qs)\<rparr>)"
    using py_replace_join_bearer [of qs] by (simp add: validate_api_key_iff)
qed

theorem credential_check_deletes_every_bearer_witness:
  "\<not> sublist ''Bearer '' ''Bearer'' \<and> \<not> sublist ''Bearer '' '' '' \<and>
   \<not> validate_api_key (test_env (\<lambda>n. False))
       ((test_request [] (Inr JNull))\<lparr>authorization := Some (join_bearer [''Bearer'', '' ''])\<rparr>) \<and>
   api_secret_key (test_env (\<lambda>n. False)) = Some ''s3cret'' \<and> ''s3cret'' \<noteq> [] \<and>
   \<not> sublist ''Bearer '' ''s3cret'' \<and> concat [[], ''s3'', ''cret''] = ''s3cret'' \<and>
   validate_api_key (test_env (\<lambda>n. False)) ((test_request [] (Inr JNull))\<lparr>authorization := Some ''s3cret''\<rparr>) \<and>
   validate_api_key (test_env (\<lambda>n. False))
       ((test_request [] (Inr JNull))\<lparr>authorization := Some (join_bearer [[], ''s3'', ''cret''])\<rparr>)"
proof -
  have h1: "\<forall>p \<in> set [''Bearer'', '' ''] . \<not> sublist ''Bearer '' p"
    by (simp add: sublist_code)
  have h2: "api_secret_key (test_env (\<lambda>n. False)) = Some ''s3cret'' \<and> ''s3cret'' \<noteq> [] \<and>
      \<not> sublist ''Bearer '' ''s3cret'' \<and> concat [[], ''s3'', ''cret''] = ''s3cret''"
    by (simp add: test_env_def sublist_code)
  show ?thesis
    using h1 h2
      credential_check_deletes_every_bearer [of "[''Bearer'', '' '']" "test_env (\<lambda>n. False)"
        "test_request [] (Inr JNull)" "''s3cret''" "[[], ''s3'', ''cret'']"]
    by (simp add: test_env_def)
qed

text \<open>
  C2 as stated fails for the empty secret, which contains no \<^verbatim>\<open>'Bearer '\<close>: with
  \<^verbatim>\<open>API_SECRET_KEY\<close> set to the empty string, the header consisting of the bare secret is
  denied, since an empty key is refused before the comparison.
\<close>

theorem credential_check_empty_secret_counterexample:
  "\<not> sublist ''Bearer '' [] \<and>
   \<not> validate_api_key ((test_env (\<lambda>n. False))\<lparr>api_secret_key := Some []\<rparr>) (test_request [] (Inr JNull))"
  by code_simp

section \<open>Scan ingestion: auxiliary facts\<close>

lemma called_simps [simp]:
  "rows (called ev st) = rows st"
  "next_id (called ev st) = next_id st"
  "trace (called ev st) = trace st @ [ev]"
  by (simp_all add: called_def)

lemma finally_close_simps [simp]:
  "rows (finally_close l st) = rows st"
  "next_id (finally_close l st) = next_id st"
  by (simp_all add: finally_close_def Let_def)

lemma status_simps [simp]:
  "status (error_response c m) = c"
  "status (created_response i cs) = 201"
  by (simp_all add: error_response_def created_response_def)











section \<open>Scan ingestion: the claims\<close>











section \<open>Credential check before storage\<close>

text \<open>
  C5. When the credential check fails, each of the three protected handlers answers
  401 and returns the database exactly as it received it: no row, no id and no entry
  of the trace of driver calls has changed, so no call to the driver was made.
\<close>

theorem unauthorized_before_storage:
  assumes "\<not> validate_api_key e req"
  shows "receive_security_scan e req st = (error_response 401 ''Unauthorized'', st) \<and>
         get_compliance_report e req st = (error_response 401 ''Unauthorized'', st) \<and>
         get_application_status e req app st = (error_response 401 ''Unauthorized'', st) \<and>
         status (error_response 401 ''Unauthorized'') = 401"
  using assms
  by (simp add: receive_security_scan_def get_compliance_report_def get_application_status_def)

theorem unauthorized_before_storage_witness:
  "\<not> validate_api_key (test_env (\<lambda>n. False)) (test_request ''Bearer wrong'' (Inr payload_minimal)) \<and>
   receive_security_scan (test_env (\<lambda>n. False)) (test_request ''Bearer wrong'' (Inr payload_minimal)) test_storage
     = (error_response 401 ''Unauthorized'', test_storage) \<and>
   get_compliance_report (test_env (\<lambda>n. False)) (test_request ''Bearer wrong'' (Inr payload_minimal)) test_storage
     = (error_response 401 ''Unauthorized'', test_storage) \<and>
   get_application_status (test_env (\<lambda>n. False)) (test_request ''Bearer wrong'' (Inr payload_minimal))
       ''svc-a'' test_storage
     = (error_response 401 ''Unauthorized'', test_storage)"
proof -
  have h: "\<not> validate_api_key (test_env (\<lambda>n. False)) (test_request ''Bearer wrong'' (Inr payload_minimal))"
    by code_simp
  from unauthorized_before_storage [OF h] h show ?thesis by simp
qed

section \<open>Read-only handlers: auxiliary facts\<close>













section \<open>Compliance report: the claims\<close>





section \<open>Status lookup: the claim\<close>



end
